theory Spec2Isabelle
  imports Main
begin

section \<open>Trace-ID conversion (convert_otel_trace_id_to_xray)\<close>

text \<open>
  The function is defined, with the same body, in \<^verbatim>\<open>main.py\<close>,
  \<^verbatim>\<open>manual-instrumentation.py\<close> and \<^verbatim>\<open>src/manual-instrumentation.py\<close>:
  \<^verbatim>\<open>
  def convert_otel_trace_id_to_xray(otel_trace_id_decimal):
      otel_trace_id_hex = "{:032x}".format(otel_trace_id_decimal)
      x_ray_trace_id = TRACE_ID_DELIMITER.join(
          [
              TRACE_ID_VERSION,
              otel_trace_id_hex[:TRACE_ID_FIRST_PART_LENGTH],
              otel_trace_id_hex[TRACE_ID_FIRST_PART_LENGTH:],
          ]
      )
      return '{{"traceId": "{}"}}'.format(x_ray_trace_id)
  \<close>
  Python integers are unbounded, so the argument is an \<open>int\<close>; the 128-bit range is a
  hypothesis of the theorems, not a property of the type.
\<close>

subsection \<open>Python's format specification 032x\<close>

definition hex_digit :: "nat \<Rightarrow> char" where
  "hex_digit d = ''0123456789abcdef'' ! d"

fun hex_of_nat :: "nat \<Rightarrow> string" where
  "hex_of_nat n =
     (if n < 16 then [hex_digit n] else hex_of_nat (n div 16) @ [hex_digit (n mod 16)])"

declare hex_of_nat.simps [simp del]

definition format_032x :: "int \<Rightarrow> string" where
  \<comment> \<open>fill 0, width 32, lowercase hexadecimal; the width is a minimum, and the sign of a
      negative number comes before the padding\<close>
  "format_032x n =
     (if n < 0
      then (let ds = hex_of_nat (nat (- n)) in CHR ''-'' # replicate (31 - length ds) CHR ''0'' @ ds)
      else (let ds = hex_of_nat (nat n) in replicate (32 - length ds) CHR ''0'' @ ds))"

subsection \<open>The imported constants\<close>

definition TRACE_ID_DELIMITER :: string where
  \<comment> \<open>Modelled from the spec: the constant is imported from
      opentelemetry.propagators.aws.aws_xray_propagator, which is not part of the
      repository; the spec gives the delimiter as the single character -\<close>
  "TRACE_ID_DELIMITER = ''-''"

definition TRACE_ID_FIRST_PART_LENGTH :: nat where
  \<comment> \<open>Modelled from the spec: imported from the same module; the spec gives the first
      segment as 8 hexadecimal digits\<close>
  "TRACE_ID_FIRST_PART_LENGTH = 8"

text \<open>
  \<^verbatim>\<open>TRACE_ID_VERSION\<close> is imported from the same module and the spec leaves its value open
  (``a fixed one-byte hex constant''), so it is a parameter \<open>version\<close> of the functions
  below.
\<close>

subsection \<open>The function\<close>

fun join :: "string \<Rightarrow> string list \<Rightarrow> string" where
  "join d [] = []"
| "join d [x] = x"
| "join d (x # y # zs) = x @ d @ join d (y # zs)"

definition x_ray_trace_id :: "string \<Rightarrow> int \<Rightarrow> string" where
  \<comment> \<open>the local variable of that name\<close>
  "x_ray_trace_id version otel_trace_id_decimal =
     (let otel_trace_id_hex = format_032x otel_trace_id_decimal
      in join TRACE_ID_DELIMITER
           [version,
            take TRACE_ID_FIRST_PART_LENGTH otel_trace_id_hex,
            drop TRACE_ID_FIRST_PART_LENGTH otel_trace_id_hex])"

definition json_prefix :: string where
  "json_prefix = [CHR ''{'', CHR 0x22] @ ''traceId'' @ [CHR 0x22, CHR '':'', CHR '' '', CHR 0x22]"

definition json_suffix :: string where
  "json_suffix = [CHR 0x22, CHR ''}'']"

definition convert_otel_trace_id_to_xray :: "string \<Rightarrow> int \<Rightarrow> string" where
  "convert_otel_trace_id_to_xray version otel_trace_id_decimal =
     json_prefix @ x_ray_trace_id version otel_trace_id_decimal @ json_suffix"


subsection \<open>Reading the output back\<close>

text \<open>
  These definitions follow the wording of the specification's round-trip property, so
  that it can be compared with what the function returns: the hexadecimal alphabet, the
  value of a hexadecimal string (Python's \<^verbatim>\<open>int(s, 16)\<close> on such a string), the
  segments of a string between delimiters (Python's \<^verbatim>\<open>s.split("-")\<close>), and ``the
  segments, stripped of version and delimiters'': every segment but the first, joined.
\<close>

definition hex_chars :: "char set" where
  "hex_chars = set ''0123456789abcdef''"

definition hex_char_value :: "char \<Rightarrow> nat" where
  "hex_char_value c = length (takeWhile (\<lambda>d. d \<noteq> c) ''0123456789abcdef'')"

definition hex_value :: "string \<Rightarrow> nat" where
  "hex_value s = foldl (\<lambda>a c. 16 * a + hex_char_value c) 0 s"

fun split_on :: "char \<Rightarrow> string \<Rightarrow> string list" where
  "split_on c [] = [[]]"
| "split_on c (x # xs) =
     (if x = c then [] # split_on c xs
      else (case split_on c xs of w # ws \<Rightarrow> (x # w) # ws | [] \<Rightarrow> [[x]]))"

definition strip_version_and_delimiters :: "string \<Rightarrow> string" where
  "strip_version_and_delimiters s = concat (tl (split_on CHR ''-'' s))"

definition strip_json_wrapper :: "string \<Rightarrow> string" where
  \<comment> \<open>removes as many characters as the wrapper has at either end\<close>
  "strip_json_wrapper s =
     take (length s - length json_prefix - length json_suffix) (drop (length json_prefix) s)"


section \<open>The route handlers\<close>

subsection \<open>Python values and exceptions\<close>

text \<open>
  An \<open>exn\<close> is an instance of a subclass of \<^verbatim>\<open>Exception\<close>, the only kind the
  handler's \<^verbatim>\<open>except Exception as e\<close> clause catches: the name of its class and the
  text \<^verbatim>\<open>str(e)\<close>. A computation that can raise returns \<open>exn + 'a\<close>, with
  \<open>Inl\<close> for the raise.
\<close>

datatype exn = Exn (exn_type: string) (exn_str: string)

definition KeyError :: "string \<Rightarrow> exn" where
  \<comment> \<open>\<^verbatim>\<open>str(KeyError(k))\<close> is the key's \<^verbatim>\<open>repr\<close>: for a key without quotes or
      escapes, the key between single quotes\<close>
  "KeyError k = Exn ''KeyError'' ([CHR 0x27] @ k @ [CHR 0x27])"

definition getitem :: "(string \<rightharpoonup> 'v) \<Rightarrow> string \<Rightarrow> exn + 'v" where
  \<comment> \<open>the subscription \<^verbatim>\<open>d[k]\<close> of a dict\<close>
  "getitem d k = (case d k of None \<Rightarrow> Inl (KeyError k) | Some v \<Rightarrow> Inr v)"

text \<open>
  A bucket of the response is a dict of which only the key \<^verbatim>\<open>Name\<close> is read, and the
  response is a dict of which only the key \<^verbatim>\<open>Buckets\<close> is read.
\<close>

type_synonym bucket = "string \<rightharpoonup> string"

type_synonym response = "string \<rightharpoonup> bucket list"

text \<open>The dicts the handlers return: the items in the order of the dict display.\<close>

datatype jvalue = JStr string | JList "string list"

type_synonym pydict = "(string \<times> jvalue) list"

fun dec_of_nat :: "nat \<Rightarrow> string" where
  "dec_of_nat n =
     (if n < 10 then [''0123456789'' ! n] else dec_of_nat (n div 10) @ [''0123456789'' ! (n mod 10)])"

declare dec_of_nat.simps [simp del]

subsection \<open>What one invocation reads from outside\<close>

text \<open>
  The parent span's id, the four readings of \<^verbatim>\<open>datetime.now()\<close> (in microseconds; a
  reading after a raise is not taken), and the outcomes of the two calls into the AWS
  SDK: \<^verbatim>\<open>boto3.client('s3')\<close> and \<^verbatim>\<open>s3.list_buckets()\<close>.
\<close>

record env =
  parent_span_id :: nat
  now_start :: int
  now_api_call_start :: int
  now_api_call_end :: int
  now_end :: int
  boto3_client :: "exn + unit"
  list_buckets :: "exn + response"

subsection \<open>Spans, the counter and the log\<close>

text \<open>
  The tracer, the counter and the logger belong to the OpenTelemetry SDK; the handler only
  calls them. The state below records those calls: the spans in the order they were
  started, each with its attributes, its events, its status and the number of times it
  was ended; the span that is current; the calls of the counter's \<^verbatim>\<open>add\<close>; the log
  records; and the calls into the AWS SDK.

  A duration \<^verbatim>\<open>(b - a).total_seconds() * 1000\<close> is kept as the difference of the two
  readings in microseconds (\<open>AMillis\<close>), and \<^verbatim>\<open>isoformat()\<close> of a reading as the
  reading (\<open>ATime\<close>).
\<close>

datatype attr_value = AStr string | AInt int | ABool bool | AMillis int | ATime int

datatype status = Unset | Ok | Error string

datatype level = INFO | ERROR

type_synonym labels = "(string \<times> string) list"

record span =
  span_name :: string
  span_parent :: "nat option"
  attributes :: "string \<rightharpoonup> attr_value"
  events :: "(string \<times> (string \<times> attr_value) list) list"
  span_status :: status
  end_calls :: nat

record world =
  spans :: "span list"
  current_span :: "nat option"
  counter_adds :: "(nat \<times> labels) list"
  log_records :: "(level \<times> string) list"
  sdk_calls :: "string list"

definition start_as_current_span :: "string \<Rightarrow> world \<Rightarrow> nat \<times> world" where
  "start_as_current_span name s =
     (let i = length (spans s);
          sp = \<lparr>span_name = name, span_parent = current_span s, attributes = Map.empty,
                events = [], span_status = Unset, end_calls = 0\<rparr>
      in (i, s\<lparr>spans := spans s @ [sp], current_span := Some i\<rparr>))"

definition span_update :: "nat \<Rightarrow> (span \<Rightarrow> span) \<Rightarrow> world \<Rightarrow> world" where
  "span_update i f s = s\<lparr>spans := (spans s)[i := f (spans s ! i)]\<rparr>"

definition set_attribute :: "nat \<Rightarrow> string \<Rightarrow> attr_value \<Rightarrow> world \<Rightarrow> world" where
  "set_attribute i k v = span_update i (\<lambda>sp. sp\<lparr>attributes := (attributes sp)(k \<mapsto> v)\<rparr>)"

definition add_event :: "nat \<Rightarrow> string \<Rightarrow> (string \<times> attr_value) list \<Rightarrow> world \<Rightarrow> world" where
  "add_event i name as = span_update i (\<lambda>sp. sp\<lparr>events := events sp @ [(name, as)]\<rparr>)"

definition record_exception :: "nat \<Rightarrow> exn \<Rightarrow> world \<Rightarrow> world" where
  \<comment> \<open>an event named exception, with the class and the text of the exception\<close>
  "record_exception i e =
     add_event i ''exception''
       [(''exception.type'', AStr (exn_type e)), (''exception.message'', AStr (exn_str e))]"

definition set_status :: "nat \<Rightarrow> status \<Rightarrow> world \<Rightarrow> world" where
  "set_status i st = span_update i (\<lambda>sp. sp\<lparr>span_status := st\<rparr>)"

definition end_span :: "nat \<Rightarrow> world \<Rightarrow> world" where
  "end_span i = span_update i (\<lambda>sp. sp\<lparr>end_calls := end_calls sp + 1\<rparr>)"

definition counter_add :: "nat \<Rightarrow> labels \<Rightarrow> world \<Rightarrow> world" where
  "counter_add n ls s = s\<lparr>counter_adds := counter_adds s @ [(n, ls)]\<rparr>"

definition counter_value :: "labels \<Rightarrow> world \<Rightarrow> nat" where
  \<comment> \<open>the count of one label set: the sum of the amounts added under it\<close>
  "counter_value ls s = sum_list (map fst (filter (\<lambda>a. snd a = ls) (counter_adds s)))"

definition log :: "level \<Rightarrow> string \<Rightarrow> world \<Rightarrow> world" where
  "log lv msg s = s\<lparr>log_records := log_records s @ [(lv, msg)]\<rparr>"

definition sdk_call :: "string \<Rightarrow> world \<Rightarrow> world" where
  "sdk_call name s = s\<lparr>sdk_calls := sdk_calls s @ [name]\<rparr>"

definition do_all :: "(world \<Rightarrow> world) list \<Rightarrow> world \<Rightarrow> world" where
  \<comment> \<open>a sequence of statements, run first to last\<close>
  "do_all fs s = fold (\<lambda>f. f) fs s"

text \<open>
  \<^verbatim>\<open>with tracer.start_as_current_span(name) as span: body\<close>. The span is started as a
  child of the current span and made current. When the body raises, the context manager
  records the exception on the span and sets its status to error, described by the class
  and the text of the exception, and the exception goes on; in every case the span is
  ended and the span that was current before is current again.
\<close>

definition with_span ::
  "string \<Rightarrow> (nat \<Rightarrow> world \<Rightarrow> (exn + 'a) \<times> world) \<Rightarrow> world \<Rightarrow> (exn + 'a) \<times> world" where
  "with_span name body s =
     (let outer = current_span s;
          (i, s1) = start_as_current_span name s;
          (r, s2) = body i s1;
          s3 = (case r of
                  Inl e \<Rightarrow> set_status i (Error (exn_type e @ '': '' @ exn_str e))
                             (record_exception i e s2)
                | Inr _ \<Rightarrow> s2)
      in (r, (end_span i s3)\<lparr>current_span := outer\<rparr>))"


subsection \<open>aws_sdk_call_manual_instrumentation (manual_instrumentation/main.py)\<close>

text \<open>
  The handler is written here block by block: the three inner \<^verbatim>\<open>with\<close> blocks, the body
  of the \<^verbatim>\<open>try\<close>, the \<^verbatim>\<open>except\<close> clause, and the function, whose outer \<^verbatim>\<open>with\<close> block
  holds the \<^verbatim>\<open>try\<close> statement. The handler of the same name in \<^verbatim>\<open>main.py\<close> is
  another function and is not the one embedded here: its \<^verbatim>\<open>except\<close> clause adds to the
  counter first and then calls \<^verbatim>\<open>error\<close> on an OpenTelemetry logger, not on a logger
  of the standard library.
\<close>

definition client_setup :: "env \<Rightarrow> world \<Rightarrow> (exn + unit) \<times> world" where
  "client_setup ev =
     with_span ''s3_client_setup'' (\<lambda>client_span s.
       let s1 = do_all
             [set_attribute client_span ''aws.service'' (AStr ''s3''),
              set_attribute client_span ''operation.phase'' (AStr ''client_initialization''),
              add_event client_span ''Starting S3 client initialization'' [],
              sdk_call ''boto3.client''] s
       in case boto3_client ev of
            Inl e \<Rightarrow> (Inl e, s1)
          | Inr s3 \<Rightarrow> (Inr s3, add_event client_span ''S3 client initialized successfully'' [] s1))"

definition api_call :: "env \<Rightarrow> world \<Rightarrow> (exn + response) \<times> world" where
  "api_call ev =
     with_span ''s3_list_buckets_api_call'' (\<lambda>api_span s.
       let s1 = do_all
             [set_attribute api_span ''aws.service'' (AStr ''s3''),
              set_attribute api_span ''aws.operation'' (AStr ''list_buckets''),
              set_attribute api_span ''operation.phase'' (AStr ''api_execution''),
              set_attribute api_span ''http.method'' (AStr ''GET''),
              add_event api_span ''Starting API call to list S3 buckets'' [],
              sdk_call ''list_buckets''] s
       in case list_buckets ev of
            Inl e \<Rightarrow> (Inl e, s1)
          | Inr response \<Rightarrow>
              (let api_duration = now_api_call_end ev - now_api_call_start ev
               in case getitem response ''Buckets'' of
                    Inl e \<Rightarrow> (Inl e, s1)
                  | Inr buckets \<Rightarrow>
                      (let bucket_count = int (length buckets)
                       in (Inr response,
                           do_all
                             [set_attribute api_span ''aws.s3.bucket_count'' (AInt bucket_count),
                              set_attribute api_span ''operation.duration_ms'' (AMillis api_duration),
                              add_event api_span ''API call completed successfully''
                                [(''bucket_count'', AInt bucket_count),
                                 (''duration_ms'', AMillis api_duration)]] s1))))"

fun names_of :: "bucket list \<Rightarrow> exn + string list" where
  \<comment> \<open>the comprehension \<^verbatim>\<open>[bucket['Name'] for bucket in buckets]\<close>\<close>
  "names_of [] = Inr []"
| "names_of (bucket # buckets) =
     (case getitem bucket ''Name'' of
        Inl e \<Rightarrow> Inl e
      | Inr name \<Rightarrow> (case names_of buckets of Inl e \<Rightarrow> Inl e | Inr names \<Rightarrow> Inr (name # names)))"

definition response_processing :: "response \<Rightarrow> world \<Rightarrow> (exn + string list) \<times> world" where
  "response_processing response =
     with_span ''response_processing'' (\<lambda>processing_span s.
       let s1 = do_all
             [set_attribute processing_span ''operation.phase'' (AStr ''data_processing''),
              set_attribute processing_span ''data.type'' (AStr ''s3_bucket_list''),
              add_event processing_span ''Starting response data processing'' []] s
       in case getitem response ''Buckets'' of
            Inl e \<Rightarrow> (Inl e, s1)
          | Inr buckets \<Rightarrow>
              (case names_of buckets of
                 Inl e \<Rightarrow> (Inl e, s1)
               | Inr bucket_names \<Rightarrow>
                   (Inr bucket_names,
                    do_all
                      [set_attribute processing_span ''processed.bucket_count''
                         (AInt (int (length bucket_names))),
                       add_event processing_span ''Response processing completed''
                         [(''processed_buckets'', AInt (int (length bucket_names)))]] s1)))"

definition success_labels :: labels where
  "success_labels = [(''operation'', ''list_buckets'')]"

definition error_labels :: labels where
  "error_labels = [(''operation'', ''list_buckets''), (''status'', ''error'')]"

definition try_block :: "env \<Rightarrow> nat \<Rightarrow> world \<Rightarrow> (exn + pydict) \<times> world" where
  "try_block ev main_span s =
     (let s1 = do_all
            [set_attribute main_span ''operation.type'' (AStr ''aws_sdk_call''),
             set_attribute main_span ''language'' (AStr ''python-manual-instrumentation''),
             set_attribute main_span ''aws.service'' (AStr ''s3''),
             set_attribute main_span ''aws.operation'' (AStr ''list_buckets''),
             set_attribute main_span ''component'' (AStr ''boto3''),
             add_event main_span ''Operation initialized'' [(''timestamp'', ATime (now_start ev))]] s
      in case client_setup ev s1 of
           (Inl e, s2) \<Rightarrow> (Inl e, s2)
         | (Inr s3, s2) \<Rightarrow>
             (case api_call ev s2 of
                (Inl e, s3) \<Rightarrow> (Inl e, s3)
              | (Inr response, s3) \<Rightarrow>
                  (case response_processing response s3 of
                     (Inl e, s4) \<Rightarrow> (Inl e, s4)
                   | (Inr bucket_names, s4) \<Rightarrow>
                       (let end_time = now_end ev;
                            total_duration = end_time - now_start ev
                        in (Inr [(''message'', JStr ''Listed S3 buckets successfully''),
                                 (''buckets'', JList bucket_names)],
                            do_all
                              [set_attribute main_span ''operation.total_duration_ms''
                                 (AMillis total_duration),
                               set_attribute main_span ''operation.success'' (ABool True),
                               add_event main_span ''Operation completed successfully''
                                 [(''total_duration_ms'', AMillis total_duration),
                                  (''buckets_found'', AInt (int (length bucket_names))),
                                  (''end_timestamp'', ATime end_time)],
                               counter_add 1 success_labels] s4)))))"

definition except_block :: "nat \<Rightarrow> exn \<Rightarrow> world \<Rightarrow> (exn + pydict) \<times> world" where
  "except_block main_span e s =
     (Inr [(''error'', JStr (exn_str e)), (''message'', JStr ''Failed to list S3 buckets'')],
      do_all
        [record_exception main_span e,
         set_status main_span (Error (exn_str e)),
         log ERROR (''Error listing S3 buckets: '' @ exn_str e),
         counter_add 1 error_labels] s)"

definition aws_sdk_call_manual_instrumentation :: "env \<Rightarrow> world \<Rightarrow> (exn + pydict) \<times> world" where
  "aws_sdk_call_manual_instrumentation ev s =
     (let s0 = log INFO
            (''Starting manual instrumentation for AWS SDK call Parent span: ''
               @ dec_of_nat (parent_span_id ev)) s
      in with_span ''aws_s3_list_operation'' (\<lambda>main_span s1.
           case try_block ev main_span s1 of
             (Inl e, s2) \<Rightarrow> except_block main_span e s2
           | (Inr result, s2) \<Rightarrow> (Inr result, s2)) s0)"

subsection \<open>aws_sdk_call_with_no_instrumentation (manual-instrumentation.py)\<close>

text \<open>
  \<^verbatim>\<open>
  def aws_sdk_call_with_no_instrumentation():
      s3 = boto3.client('s3')
      response = s3.list_buckets()
  \<close>
  The function in \<^verbatim>\<open>src/manual-instrumentation.py\<close> is the same. A function that ends
  without a \<^verbatim>\<open>return\<close> statement returns \<^verbatim>\<open>None\<close>, which is \<open>None\<close> here.
\<close>

definition aws_sdk_call_with_no_instrumentation ::
  "env \<Rightarrow> world \<Rightarrow> (exn + pydict option) \<times> world" where
  "aws_sdk_call_with_no_instrumentation ev s =
     (let s1 = sdk_call ''boto3.client'' s
      in case boto3_client ev of
           Inl e \<Rightarrow> (Inl e, s1)
         | Inr s3 \<Rightarrow>
             (let s2 = sdk_call ''list_buckets'' s1
              in case list_buckets ev of
                   Inl e \<Rightarrow> (Inl e, s2)
                 | Inr response \<Rightarrow> (Inr None, s2)))"

subsection \<open>Shapes of a result, and the wrapped operation\<close>

fun is_success_shape :: "pydict \<Rightarrow> bool" where
  "is_success_shape [(k1, JStr m), (k2, JList bs)] = (k1 = ''message'' \<and> k2 = ''buckets'')"
| "is_success_shape d = False"

fun is_failure_shape :: "pydict \<Rightarrow> bool" where
  "is_failure_shape [(k1, JStr e), (k2, JStr m)] = (k1 = ''error'' \<and> k2 = ''message'')"
| "is_failure_shape d = False"

definition list_buckets_operation :: "env \<Rightarrow> exn + string list" where
  \<comment> \<open>the wrapped operation taken as one call that yields the bucket names or fails: the
      statements of the handler that touch the AWS SDK and its response, in their order,
      up to the first one that raises\<close>
  "list_buckets_operation ev =
     (case boto3_client ev of
        Inl e \<Rightarrow> Inl e
      | Inr s3 \<Rightarrow>
          (case list_buckets ev of
             Inl e \<Rightarrow> Inl e
           | Inr response \<Rightarrow>
               (case getitem response ''Buckets'' of
                  Inl e \<Rightarrow> Inl e
                | Inr buckets \<Rightarrow> names_of buckets)))"

subsection \<open>Two invocations, and a name for the span of a with block\<close>

definition child_span :: "(exn + 'a) \<times> world \<Rightarrow> span" where
  \<comment> \<open>the span a with block has started and ended: the last one of the state it leaves\<close>
  "child_span p = last (spans (snd p))"

definition env_ok :: env where
  \<comment> \<open>an invocation in which the account has the three buckets a, b and c\<close>
  "env_ok =
     \<lparr>parent_span_id = 0, now_start = 0, now_api_call_start = 1000,
      now_api_call_end = 251000, now_end = 252000,
      boto3_client = Inr (),
      list_buckets = Inr [''Buckets'' \<mapsto>
        [[''Name'' \<mapsto> ''a''], [''Name'' \<mapsto> ''b''], [''Name'' \<mapsto> ''c'']]]\<rparr>"

definition env_denied :: env where
  \<comment> \<open>an invocation in which the call is refused\<close>
  "env_denied =
     \<lparr>parent_span_id = 0, now_start = 0, now_api_call_start = 1000,
      now_api_call_end = 251000, now_end = 252000,
      boto3_client = Inr (),
      list_buckets = Inl (Exn ''ClientError'' ''access denied'')\<rparr>"

definition empty_world :: world where
  "empty_world = \<lparr>spans = [], current_span = None, counter_adds = [], log_records = [], sdk_calls = []\<rparr>"


section \<open>Properties of the trace-ID conversion\<close>

subsection \<open>Hexadecimal digits\<close>

lemma hex_alphabet_props: "length ''0123456789abcdef'' = 16" "distinct ''0123456789abcdef''"
  by simp_all

lemma hex_digit_in: "d < 16 \<Longrightarrow> hex_digit d \<in> hex_chars"
  unfolding hex_digit_def hex_chars_def by (rule nth_mem) simp

lemma index_by_takeWhile:
  "distinct xs \<Longrightarrow> d < length xs \<Longrightarrow> length (takeWhile (\<lambda>x. x \<noteq> xs ! d) xs) = d"
proof -
  assume dist: "distinct xs" and d: "d < length xs"
  have "takeWhile (\<lambda>x. x \<noteq> xs ! d) xs = take d xs"
    by (rule takeWhile_eq_take_P_nth) (use dist d in \<open>auto simp: nth_eq_iff_index_eq\<close>)
  then show ?thesis using d by simp
qed

lemma hex_char_value_digit: "d < 16 \<Longrightarrow> hex_char_value (hex_digit d) = d"
  unfolding hex_digit_def hex_char_value_def
  by (rule index_by_takeWhile) (simp_all only: hex_alphabet_props)

lemma hex_of_nat_chars: "set (hex_of_nat n) \<subseteq> hex_chars"
proof (induction n rule: hex_of_nat.induct)
  case (1 n)
  show ?case
  proof (cases "n < 16")
    case True
    then show ?thesis by (simp add: hex_of_nat.simps [of n] hex_digit_in)
  next
    case False
    with 1 show ?thesis by (simp add: hex_of_nat.simps [of n] hex_digit_in)
  qed
qed

lemma hex_of_nat_length: "n < 16 ^ k \<Longrightarrow> 0 < k \<Longrightarrow> length (hex_of_nat n) \<le> k"
proof (induction n arbitrary: k rule: hex_of_nat.induct)
  case (1 n)
  show ?case
  proof (cases "n < 16")
    case True
    with 1 show ?thesis by (simp add: hex_of_nat.simps [of n])
  next
    case False
    obtain j where k: "k = Suc j" using 1(3) by (cases k) auto
    have "j \<noteq> 0" using False 1(2) k by (cases j) auto
    moreover have "n div 16 < 16 ^ j" using 1(2) k by (simp add: less_mult_imp_div_less mult.commute)
    ultimately have "length (hex_of_nat (n div 16)) \<le> j" using 1(1) [OF False] by simp
    then show ?thesis using False k by (simp add: hex_of_nat.simps [of n])
  qed
qed

lemma hex_value_snoc: "hex_value (s @ [c]) = 16 * hex_value s + hex_char_value c"
  by (simp add: hex_value_def)

lemma hex_value_hex_of_nat: "hex_value (hex_of_nat n) = n"
proof (induction n rule: hex_of_nat.induct)
  case (1 n)
  show ?case
  proof (cases "n < 16")
    case True
    then show ?thesis by (simp add: hex_of_nat.simps [of n] hex_value_def hex_char_value_digit)
  next
    case False
    with 1 show ?thesis
      by (simp add: hex_of_nat.simps [of n] hex_value_snoc hex_char_value_digit)
  qed
qed

lemma foldl_zeros: "foldl (\<lambda>a c. 16 * a + hex_char_value c) 0 (replicate k CHR ''0'') = 0"
  by (induction k) (simp_all add: hex_char_value_def)

lemma hex_value_pad: "hex_value (replicate k CHR ''0'' @ s) = hex_value s"
  by (simp add: hex_value_def foldl_zeros)


lemma pow_128: "(2::int) ^ 128 = 16 ^ 32"
proof -
  have "(16::int) = 2 ^ 4" by simp
  then have "(16::int) ^ 32 = (2 ^ 4) ^ 32" by (rule arg_cong)
  also have "\<dots> = 2 ^ 128" by (simp only: power_mult [symmetric]) simp
  finally show ?thesis by simp
qed

lemma format_032x_unsigned:
  assumes "0 \<le> x" "x < 2 ^ 128"
  shows "format_032x x = replicate (32 - length (hex_of_nat (nat x))) CHR ''0'' @ hex_of_nat (nat x)"
    and "length (format_032x x) = 32"
proof -
  show eq: "format_032x x = replicate (32 - length (hex_of_nat (nat x))) CHR ''0'' @ hex_of_nat (nat x)"
    using assms(1) by (simp add: format_032x_def Let_def)
  have "x < 16 ^ 32" using assms(2) by (simp only: pow_128)
  then have "nat x < 16 ^ 32" using assms(1) by (simp add: nat_less_iff)
  then have "length (hex_of_nat (nat x)) \<le> 32" by (rule hex_of_nat_length) simp
  then show "length (format_032x x) = 32" by (simp add: eq)
qed

lemma format_032x_chars:
  assumes "0 \<le> x"
  shows "set (format_032x x) \<subseteq> hex_chars"
proof -
  have "CHR ''0'' \<in> hex_chars" by (simp add: hex_chars_def)
  then show ?thesis using assms hex_of_nat_chars [of "nat x"]
    by (auto simp: format_032x_def Let_def)
qed

lemma format_032x_value:
  assumes "0 \<le> x"
  shows "int (hex_value (format_032x x)) = x"
  using assms by (simp add: format_032x_def Let_def hex_value_pad hex_value_hex_of_nat)

lemma delimiter_not_hex: "CHR ''-'' \<notin> hex_chars"
  by (simp add: hex_chars_def)

lemma split_on_no_sep: "c \<notin> set s \<Longrightarrow> split_on c s = [s]"
  by (induction s) auto

lemma split_on_sep: "c \<notin> set a \<Longrightarrow> split_on c (a @ c # rest) = a # split_on c rest"
  by (induction a) auto

lemma x_ray_trace_id_parts:
  "x_ray_trace_id version x =
     version @ ''-'' @ take 8 (format_032x x) @ ''-'' @ drop 8 (format_032x x)"
  by (simp add: x_ray_trace_id_def Let_def TRACE_ID_DELIMITER_def TRACE_ID_FIRST_PART_LENGTH_def)

lemma strip_json_wrapper_convert:
  "strip_json_wrapper (convert_otel_trace_id_to_xray version x) = x_ray_trace_id version x"
  by (simp add: strip_json_wrapper_def convert_otel_trace_id_to_xray_def)

lemma split_x_ray_trace_id:
  assumes "0 \<le> x" "CHR ''-'' \<notin> set version"
  shows "split_on CHR ''-'' (x_ray_trace_id version x) =
           [version, take 8 (format_032x x), drop 8 (format_032x x)]"
proof -
  have h: "CHR ''-'' \<notin> set (format_032x x)"
    using format_032x_chars [OF assms(1)] delimiter_not_hex by blast
  then have a: "CHR ''-'' \<notin> set (take 8 (format_032x x))"
    and b: "CHR ''-'' \<notin> set (drop 8 (format_032x x))"
    by (auto dest: in_set_takeD in_set_dropD)
  show ?thesis
    using assms(2) a b
    by (simp add: x_ray_trace_id_parts split_on_sep split_on_no_sep)
qed


subsection \<open>The claims about the conversion\<close>

text \<open>
  C4 (as amended). For every \<open>x\<close> in the range of a 128-bit unsigned integer, and a
  version that does not contain the delimiter: take what the function returns, remove the
  JSON wrapper around it, split the rest at the delimiters, drop the version segment and
  join the two other segments. The result is the 32-character, zero-padded, lowercase
  hexadecimal representation of \<open>x\<close>: it is \<^verbatim>\<open>"{:032x}".format(x)\<close>, it has 32
  characters, all of them hexadecimal digits, and read as a hexadecimal number it is
  \<open>x\<close>.
\<close>

theorem trace_id_round_trip:
  assumes "0 \<le> x" "x < 2 ^ 128" "CHR ''-'' \<notin> set version"
  shows "strip_version_and_delimiters (strip_json_wrapper (convert_otel_trace_id_to_xray version x))
           = format_032x x
       \<and> length (format_032x x) = 32
       \<and> set (format_032x x) \<subseteq> hex_chars
       \<and> int (hex_value (format_032x x)) = x"
  using split_x_ray_trace_id [OF assms(1) assms(3)] format_032x_unsigned(2) [OF assms(1) assms(2)]
    format_032x_chars [OF assms(1)] format_032x_value [OF assms(1)]
  by (simp add: strip_json_wrapper_convert strip_version_and_delimiters_def)

theorem trace_id_round_trip_witness:
  "strip_version_and_delimiters (strip_json_wrapper (convert_otel_trace_id_to_xray ''1'' 2748))
           = ''00000000000000000000000000000abc''
       \<and> format_032x 2748 = ''00000000000000000000000000000abc''
       \<and> hex_value ''00000000000000000000000000000abc'' = 2748"
proof -
  have f: "format_032x 2748 = ''00000000000000000000000000000abc''" by code_simp
  have "(0::int) \<le> 2748" "(2748::int) < 2 ^ 128" "CHR ''-'' \<notin> set ''1''" by simp_all
  from trace_id_round_trip [OF this] show ?thesis by (simp add: f)
qed

text \<open>
  C4 as stated fails: at \<open>x = 0\<close> and version \<^verbatim>\<open>1\<close>, the segments of the returned
  string after the version segment, joined, are not the 32 hexadecimal digits of \<open>0\<close>,
  because the returned string is the JSON object literal and its last segment ends with
  the closing quote and brace.
\<close>

theorem bare_segments_counterexample:
  "strip_version_and_delimiters (convert_otel_trace_id_to_xray ''1'' 0) \<noteq> format_032x 0"
  by code_simp

text \<open>
  C5 (as amended). For the trace identifier 0 the function returns the JSON object literal
  with the key \<^verbatim>\<open>traceId\<close> whose value is the version, the delimiter, eight zeros, the
  delimiter and twenty-four zeros: no leading zero is stripped.
\<close>

theorem format_zero:
  "convert_otel_trace_id_to_xray version 0 =
     json_prefix @ version @ ''-00000000-000000000000000000000000'' @ json_suffix"
proof -
  have "format_032x 0 = ''00000000000000000000000000000000''" by code_simp
  then show ?thesis
    by (simp add: convert_otel_trace_id_to_xray_def x_ray_trace_id_parts)
qed

text \<open>
  C5 as stated fails: with version \<^verbatim>\<open>1\<close> the returned string is not the bare
  \<^verbatim>\<open>1-00000000-000000000000000000000000\<close>.
\<close>

theorem format_zero_counterexample:
  "convert_otel_trace_id_to_xray ''1'' 0 \<noteq> ''1'' @ ''-00000000-000000000000000000000000''"
  by code_simp

text \<open>
  C6 (as amended). For every \<open>x\<close> in the range of a 128-bit unsigned integer and a version
  that does not contain the delimiter, the string inside the JSON wrapper has exactly
  \<open>length version + 1 + 8 + 1 + 24\<close> characters, the returned string has that many
  characters more than the wrapper, and the returned string contains the delimiter
  exactly twice.
\<close>

theorem format_length:
  assumes "0 \<le> x" "x < 2 ^ 128" "CHR ''-'' \<notin> set version"
  shows "length (x_ray_trace_id version x) = length version + 1 + 8 + 1 + 24
       \<and> length (convert_otel_trace_id_to_xray version x)
           = length json_prefix + (length version + 1 + 8 + 1 + 24) + length json_suffix
       \<and> count_list (convert_otel_trace_id_to_xray version x) CHR ''-'' = 2"
proof -
  have len: "length (format_032x x) = 32" by (rule format_032x_unsigned(2) [OF assms(1,2)])
  have h: "CHR ''-'' \<notin> set (format_032x x)"
    using format_032x_chars [OF assms(1)] delimiter_not_hex by blast
  then have a: "count_list (take 8 (format_032x x)) CHR ''-'' = 0"
    and b: "count_list (drop 8 (format_032x x)) CHR ''-'' = 0"
    by (auto simp: count_list_0_iff dest: in_set_takeD in_set_dropD)
  have v: "count_list version CHR ''-'' = 0" using assms(3) by (simp add: count_list_0_iff)
  show ?thesis using len a b v
    by (simp add: convert_otel_trace_id_to_xray_def x_ray_trace_id_parts json_prefix_def json_suffix_def)
qed

theorem format_length_witness:
  "length (x_ray_trace_id ''1'' 2748) = 35
   \<and> length (convert_otel_trace_id_to_xray ''1'' 2748) = 50
   \<and> count_list (convert_otel_trace_id_to_xray ''1'' 2748) CHR ''-'' = 2"
proof -
  have "(0::int) \<le> 2748" "(2748::int) < 2 ^ 128" "CHR ''-'' \<notin> set ''1''" by simp_all
  from format_length [OF this] show ?thesis by (simp add: json_prefix_def json_suffix_def)
qed

text \<open>
  C6 as stated fails: with version \<^verbatim>\<open>1\<close> and \<open>x = 0\<close> the returned string has 50
  characters, not \<open>1 + 1 + 8 + 1 + 24 = 35\<close>.
\<close>

theorem format_length_counterexample:
  "length (convert_otel_trace_id_to_xray ''1'' 0) \<noteq> length ''1'' + 1 + 8 + 1 + 24"
  by code_simp


section \<open>Properties of the handlers\<close>

subsection \<open>The three inner with blocks\<close>

text \<open>
  Each inner block returns what its call into the SDK (or its reading of the response)
  yields, and leaves the state with one more span, which has been ended once and whose
  parent is the span that was current; the counter, the log and the current span are as
  before. The definitions are unfolded in two steps, the block structure first and the
  operations on the state after it.
\<close>

lemmas op_defs = span_update_def set_attribute_def add_event_def record_exception_def set_status_def
  end_span_def counter_add_def log_def sdk_call_def do_all_def

lemmas ws_defs = with_span_def start_as_current_span_def Let_def

lemma world_eq_iff:
  "(r = r') \<longleftrightarrow>
     spans r = spans r' \<and> current_span r = current_span r' \<and> counter_adds r = counter_adds r'
     \<and> log_records r = log_records r' \<and> sdk_calls r = sdk_calls (r'::world)"
  by (cases r, cases r') auto

lemma client_setup_sum:
  "fst (client_setup ev s) = boto3_client ev"
  "snd (client_setup ev s) =
     s\<lparr>spans := spans s @ [child_span (client_setup ev s)],
       sdk_calls := sdk_calls s @ [''boto3.client'']\<rparr>"
  "end_calls (child_span (client_setup ev s)) = 1"
  "span_parent (child_span (client_setup ev s)) = current_span s"
  by (cases "boto3_client ev"; simp add: client_setup_def child_span_def ws_defs; simp add: op_defs)+

lemma api_call_sum:
  "fst (api_call ev s) =
     (case list_buckets ev of
        Inl e \<Rightarrow> Inl e
      | Inr response \<Rightarrow>
          (case getitem response ''Buckets'' of Inl e \<Rightarrow> Inl e | Inr buckets \<Rightarrow> Inr response))"
  "snd (api_call ev s) =
     s\<lparr>spans := spans s @ [child_span (api_call ev s)],
       sdk_calls := sdk_calls s @ [''list_buckets'']\<rparr>"
  "end_calls (child_span (api_call ev s)) = 1"
  "span_parent (child_span (api_call ev s)) = current_span s"
  by (cases "list_buckets ev"; cases "getitem (projr (list_buckets ev)) ''Buckets''";
      simp add: api_call_def child_span_def ws_defs; simp add: op_defs)+

lemma response_processing_sum:
  "fst (response_processing response s) =
     (case getitem response ''Buckets'' of Inl e \<Rightarrow> Inl e | Inr buckets \<Rightarrow> names_of buckets)"
  "snd (response_processing response s) =
     s\<lparr>spans := spans s @ [child_span (response_processing response s)]\<rparr>"
  "end_calls (child_span (response_processing response s)) = 1"
  "span_parent (child_span (response_processing response s)) = current_span s"
  by (cases "getitem response ''Buckets''"; cases "names_of (projr (getitem response ''Buckets''))";
      simp add: response_processing_def child_span_def ws_defs; simp add: op_defs)+

subsection \<open>One invocation, by the outcome of the wrapped operation\<close>

text \<open>
  The body of the \<^verbatim>\<open>try\<close> statement can raise at four places: creating the client, the
  call, reading \<^verbatim>\<open>Buckets\<close> from the response, reading \<^verbatim>\<open>Name\<close> from a bucket. The
  two lemmas below give the result and the state of an invocation that fails at any of
  them, and of one that does not fail.
\<close>

lemmas phase_sums = client_setup_sum api_call_sum response_processing_sum

lemmas handler_defs = aws_sdk_call_manual_instrumentation_def try_block_def except_block_def
  split_beta ws_defs

lemma outcome_cases:
  obtains
    (client) e where "boto3_client ev = Inl e" "list_buckets_operation ev = Inl e"
  | (call) u e where "boto3_client ev = Inr u" "list_buckets ev = Inl e" "list_buckets_operation ev = Inl e"
  | (no_buckets) u r e where "boto3_client ev = Inr u" "list_buckets ev = Inr r"
      "getitem r ''Buckets'' = Inl e" "list_buckets_operation ev = Inl e"
  | (no_name) u r bs e where "boto3_client ev = Inr u" "list_buckets ev = Inr r"
      "getitem r ''Buckets'' = Inr bs" "names_of bs = Inl e" "list_buckets_operation ev = Inl e"
  | (names) u r bs ns where "boto3_client ev = Inr u" "list_buckets ev = Inr r"
      "getitem r ''Buckets'' = Inr bs" "names_of bs = Inr ns" "list_buckets_operation ev = Inr ns"
proof (cases "boto3_client ev")
  case (Inl e)
  then show ?thesis using client by (simp add: list_buckets_operation_def)
next
  case u: (Inr u)
  show ?thesis
  proof (cases "list_buckets ev")
    case (Inl e)
    then show ?thesis using u call by (simp add: list_buckets_operation_def)
  next
    case r: (Inr r)
    show ?thesis
    proof (cases "getitem r ''Buckets''")
      case (Inl e)
      then show ?thesis using u r no_buckets by (simp add: list_buckets_operation_def)
    next
      case bs: (Inr bs)
      show ?thesis
      proof (cases "names_of bs")
        case (Inl e)
        then show ?thesis using u r bs no_name by (simp add: list_buckets_operation_def)
      next
        case (Inr ns)
        then show ?thesis using u r bs names by (simp add: list_buckets_operation_def)
      qed
    qed
  qed
qed

lemma failed_run:
  assumes "list_buckets_operation ev = Inl e"
  shows "\<exists>root cs calls info.
     aws_sdk_call_manual_instrumentation ev s =
       (Inr [(''error'', JStr (exn_str e)), (''message'', JStr ''Failed to list S3 buckets'')],
        s\<lparr>spans := spans s @ root # cs,
          counter_adds := counter_adds s @ [(1, error_labels)],
          log_records := log_records s @ [(INFO, info), (ERROR, ''Error listing S3 buckets: '' @ exn_str e)],
          sdk_calls := sdk_calls s @ calls\<rparr>)
     \<and> end_calls root = 1 \<and> span_status root = Error (exn_str e)
     \<and> span_parent root = current_span s
     \<and> attributes root ''operation.success'' = None
     \<and> attributes root ''operation.total_duration_ms'' = None
     \<and> map fst (events root) = [''Operation initialized'', ''exception'']
     \<and> list_all (\<lambda>c. end_calls c = 1 \<and> span_parent c = Some (length (spans s))) cs
     \<and> cs \<noteq> [] \<and> length cs \<le> 3"
proof (cases ev rule: outcome_cases)
  case (client e')
  with assms show ?thesis
    by (simp add: handler_defs phase_sums, simp add: op_defs world_eq_iff prod_eq_iff phase_sums)
next
  case (call u e')
  with assms show ?thesis
    by (simp add: handler_defs phase_sums, simp add: op_defs world_eq_iff prod_eq_iff phase_sums)
next
  case (no_buckets u r e')
  with assms show ?thesis
    by (simp add: handler_defs phase_sums, simp add: op_defs world_eq_iff prod_eq_iff phase_sums)
next
  case (no_name u r bs e')
  with assms show ?thesis
    by (simp add: handler_defs phase_sums, simp add: op_defs world_eq_iff prod_eq_iff phase_sums)
next
  case (names u r bs ns)
  with assms show ?thesis by simp
qed

lemma successful_run:
  assumes "list_buckets_operation ev = Inr names"
  shows "\<exists>root cs info.
     aws_sdk_call_manual_instrumentation ev s =
       (Inr [(''message'', JStr ''Listed S3 buckets successfully''), (''buckets'', JList names)],
        s\<lparr>spans := spans s @ root # cs,
          counter_adds := counter_adds s @ [(1, success_labels)],
          log_records := log_records s @ [(INFO, info)],
          sdk_calls := sdk_calls s @ [''boto3.client'', ''list_buckets'']\<rparr>)
     \<and> end_calls root = 1 \<and> span_status root = Unset
     \<and> span_parent root = current_span s
     \<and> attributes root ''operation.success'' = Some (ABool True)
     \<and> attributes root ''operation.total_duration_ms'' = Some (AMillis (now_end ev - now_start ev))
     \<and> map fst (events root) = [''Operation initialized'', ''Operation completed successfully'']
     \<and> list_all (\<lambda>c. end_calls c = 1 \<and> span_parent c = Some (length (spans s))) cs
     \<and> length cs = 3"
proof (cases ev rule: outcome_cases)
  case (names u r bs ns)
  with assms show ?thesis
    by (simp add: handler_defs phase_sums, simp add: op_defs world_eq_iff prod_eq_iff phase_sums)
qed (use assms in simp_all)

subsection \<open>The claims about the handlers\<close>

lemma env_ok_outcome: "list_buckets_operation env_ok = Inr [''a'', ''b'', ''c'']"
  by (simp add: list_buckets_operation_def env_ok_def getitem_def)

lemma env_denied_outcome: "list_buckets_operation env_denied = Inl (Exn ''ClientError'' ''access denied'')"
  by (simp add: list_buckets_operation_def env_denied_def)

text \<open>
  C1. Whatever the wrapped list-buckets operation does (it yields the names, or any of its
  statements raises), the handler raises nothing: it returns a dict. The dict has the
  shape with the keys \<^verbatim>\<open>message\<close> and \<^verbatim>\<open>buckets\<close> when the operation succeeded and
  the shape with the keys \<^verbatim>\<open>error\<close> and \<^verbatim>\<open>message\<close> when it failed, and never both.
\<close>

theorem invoke_never_raises:
  "\<exists>d. fst (aws_sdk_call_manual_instrumentation ev s) = Inr d
       \<and> (case list_buckets_operation ev of
            Inl e \<Rightarrow> is_failure_shape d \<and> \<not> is_success_shape d
          | Inr names \<Rightarrow> is_success_shape d \<and> \<not> is_failure_shape d)"
proof (cases "list_buckets_operation ev")
  case (Inl e)
  from failed_run [OF this, of s] show ?thesis using Inl by auto
next
  case (Inr names)
  from successful_run [OF this, of s] show ?thesis using Inr by auto
qed

theorem invoke_never_raises_witness:
  "(\<exists>d. fst (aws_sdk_call_manual_instrumentation env_ok empty_world) = Inr d
        \<and> is_success_shape d \<and> \<not> is_failure_shape d)
   \<and> (\<exists>d. fst (aws_sdk_call_manual_instrumentation env_denied empty_world) = Inr d
        \<and> is_failure_shape d \<and> \<not> is_success_shape d)"
  using invoke_never_raises [of env_ok empty_world] invoke_never_raises [of env_denied empty_world]
  by (simp add: env_ok_outcome env_denied_outcome)

text \<open>
  C2. When the client is created and \<^verbatim>\<open>list_buckets\<close> returns a response whose
  \<^verbatim>\<open>Buckets\<close> are three buckets named \<open>n1\<close>, \<open>n2\<close>, \<open>n3\<close>, the handler returns the
  message \<^verbatim>\<open>Listed S3 buckets successfully\<close> with the three names in their order; the
  counter's \<^verbatim>\<open>add\<close> is called once in the invocation, with amount 1 and the label
  \<^verbatim>\<open>operation = list_buckets\<close> alone, so the count of that label set grows by exactly 1
  and the count of the error label set does not change.
\<close>

theorem invoke_success:
  assumes "boto3_client ev = Inr u" "list_buckets ev = Inr r"
    and "r ''Buckets'' = Some [b1, b2, b3]"
    and "b1 ''Name'' = Some n1" "b2 ''Name'' = Some n2" "b3 ''Name'' = Some n3"
  shows "fst (aws_sdk_call_manual_instrumentation ev s) =
           Inr [(''message'', JStr ''Listed S3 buckets successfully''), (''buckets'', JList [n1, n2, n3])]
       \<and> counter_adds (snd (aws_sdk_call_manual_instrumentation ev s)) =
           counter_adds s @ [(1, [(''operation'', ''list_buckets'')])]
       \<and> counter_value [(''operation'', ''list_buckets'')] (snd (aws_sdk_call_manual_instrumentation ev s)) =
           counter_value [(''operation'', ''list_buckets'')] s + 1
       \<and> counter_value [(''operation'', ''list_buckets''), (''status'', ''error'')]
            (snd (aws_sdk_call_manual_instrumentation ev s)) =
           counter_value [(''operation'', ''list_buckets''), (''status'', ''error'')] s"
proof -
  have names: "list_buckets_operation ev = Inr [n1, n2, n3]"
    using assms by (simp add: list_buckets_operation_def getitem_def)
  from successful_run [OF names, of s] obtain w where
    run: "aws_sdk_call_manual_instrumentation ev s =
            (Inr [(''message'', JStr ''Listed S3 buckets successfully''), (''buckets'', JList [n1, n2, n3])], w)"
    and adds: "counter_adds w = counter_adds s @ [(1, success_labels)]"
    by auto
  show ?thesis
    by (simp add: run adds counter_value_def success_labels_def)
qed

theorem invoke_success_witness:
  "fst (aws_sdk_call_manual_instrumentation env_ok empty_world) =
     Inr [(''message'', JStr ''Listed S3 buckets successfully''), (''buckets'', JList [''a'', ''b'', ''c''])]
   \<and> counter_adds (snd (aws_sdk_call_manual_instrumentation env_ok empty_world)) =
       [(1, [(''operation'', ''list_buckets'')])]"
proof -
  have "boto3_client env_ok = Inr ()"
    and "list_buckets env_ok = Inr [''Buckets'' \<mapsto>
        [[''Name'' \<mapsto> ''a''], [''Name'' \<mapsto> ''b''], [''Name'' \<mapsto> ''c'']]]"
    and "[''Buckets'' \<mapsto> [[''Name'' \<mapsto> ''a''], [''Name'' \<mapsto> ''b''], [''Name'' \<mapsto> ''c'']]] ''Buckets''
           = Some [[''Name'' \<mapsto> ''a''], [''Name'' \<mapsto> ''b''], [''Name'' \<mapsto> ''c'']]"
    and "[''Name'' \<mapsto> ''a''] ''Name'' = Some ''a''"
    and "[''Name'' \<mapsto> ''b''] ''Name'' = Some ''b''"
    and "[''Name'' \<mapsto> ''c''] ''Name'' = Some ''c''"
    by (simp_all add: env_ok_def)
  from invoke_success [OF this, of empty_world] show ?thesis
    by (simp add: empty_world_def)
qed

text \<open>
  C3. When the wrapped operation fails with an exception whose text is
  \<^verbatim>\<open>access denied\<close>, the handler returns that text under \<^verbatim>\<open>error\<close> and
  \<^verbatim>\<open>Failed to list S3 buckets\<close> under \<^verbatim>\<open>message\<close>; the counter's \<^verbatim>\<open>add\<close> is called
  once in the invocation, with amount 1 and the labels \<^verbatim>\<open>operation = list_buckets\<close> and
  \<^verbatim>\<open>status = error\<close>; and the status of the root span, the first span the invocation
  starts, is error with the same text.
\<close>

theorem invoke_access_denied:
  assumes "list_buckets_operation ev = Inl e" "exn_str e = ''access denied''"
  shows "fst (aws_sdk_call_manual_instrumentation ev s) =
           Inr [(''error'', JStr ''access denied''), (''message'', JStr ''Failed to list S3 buckets'')]
       \<and> counter_adds (snd (aws_sdk_call_manual_instrumentation ev s)) =
           counter_adds s @ [(1, [(''operation'', ''list_buckets''), (''status'', ''error'')])]
       \<and> span_status (spans (snd (aws_sdk_call_manual_instrumentation ev s)) ! length (spans s)) =
           Error ''access denied''"
proof -
  from failed_run [OF assms(1), of s] obtain root cs w where
    run: "aws_sdk_call_manual_instrumentation ev s =
            (Inr [(''error'', JStr (exn_str e)), (''message'', JStr ''Failed to list S3 buckets'')], w)"
    and sp: "spans w = spans s @ root # cs"
    and adds: "counter_adds w = counter_adds s @ [(1, error_labels)]"
    and st: "span_status root = Error (exn_str e)"
    by auto
  show ?thesis
    by (simp add: run sp adds st assms(2) error_labels_def)
qed

theorem invoke_access_denied_witness:
  "fst (aws_sdk_call_manual_instrumentation env_denied empty_world) =
     Inr [(''error'', JStr ''access denied''), (''message'', JStr ''Failed to list S3 buckets'')]
   \<and> span_status (spans (snd (aws_sdk_call_manual_instrumentation env_denied empty_world)) ! 0) =
       Error ''access denied''"
  using invoke_access_denied [OF env_denied_outcome, of empty_world]
  by (simp add: empty_world_def)

text \<open>
  C8. In every invocation, whether the wrapped operation succeeds or fails and wherever
  it fails, the spans that were there before are left as they were, the invocation starts
  between two and four spans (the root and one to three children), each of them has been
  ended exactly once when the handler returns, and the span that was current before the
  invocation is current again.
\<close>

theorem spans_closed_once:
  "spans (snd (aws_sdk_call_manual_instrumentation ev s)) =
     spans s @ drop (length (spans s)) (spans (snd (aws_sdk_call_manual_instrumentation ev s)))
   \<and> length (drop (length (spans s)) (spans (snd (aws_sdk_call_manual_instrumentation ev s)))) \<in> {2, 3, 4}
   \<and> list_all (\<lambda>sp. end_calls sp = 1)
        (drop (length (spans s)) (spans (snd (aws_sdk_call_manual_instrumentation ev s))))
   \<and> current_span (snd (aws_sdk_call_manual_instrumentation ev s)) = current_span s"
proof (cases "list_buckets_operation ev")
  case (Inl e)
  from failed_run [OF this, of s] obtain root cs w r where
    run: "aws_sdk_call_manual_instrumentation ev s = (r, w)"
    and sp: "spans w = spans s @ root # cs"
    and cur: "current_span w = current_span s"
    and root: "end_calls root = 1"
    and cs: "list_all (\<lambda>c. end_calls c = 1 \<and> span_parent c = Some (length (spans s))) cs"
    and len: "cs \<noteq> []" "length cs \<le> 3"
    by auto
  have "0 < length cs" using len(1) by simp
  then have "length cs = 1 \<or> length cs = 2 \<or> length cs = 3" using len(2) by arith
  moreover have "list_all (\<lambda>sp. end_calls sp = 1) cs" using cs by (simp add: list_all_iff)
  ultimately show ?thesis by (auto simp: run sp cur root)
next
  case (Inr names)
  from successful_run [OF this, of s] obtain root cs w r where
    run: "aws_sdk_call_manual_instrumentation ev s = (r, w)"
    and sp: "spans w = spans s @ root # cs"
    and cur: "current_span w = current_span s"
    and root: "end_calls root = 1"
    and cs: "list_all (\<lambda>c. end_calls c = 1 \<and> span_parent c = Some (length (spans s))) cs"
    and len: "length cs = 3"
    by auto
  have "list_all (\<lambda>sp. end_calls sp = 1) cs" using cs by (simp add: list_all_iff)
  then show ?thesis by (simp add: run sp cur root len)
qed

theorem spans_closed_once_witness:
  "list_all (\<lambda>sp. end_calls sp = 1) (spans (snd (aws_sdk_call_manual_instrumentation env_ok empty_world)))
   \<and> list_all (\<lambda>sp. end_calls sp = 1) (spans (snd (aws_sdk_call_manual_instrumentation env_denied empty_world)))"
  using spans_closed_once [of env_ok empty_world] spans_closed_once [of env_denied empty_world]
  by (simp add: empty_world_def)

text \<open>
  C9. When the client is created and the list-buckets call returns a response, the handler
  without instrumentation has made the two calls into the AWS SDK and returns \<^verbatim>\<open>None\<close>,
  whatever the response is; nothing else of the state changes.
\<close>

theorem no_instrumentation_returns_none:
  assumes "boto3_client ev = Inr u" "list_buckets ev = Inr response"
  shows "aws_sdk_call_with_no_instrumentation ev s =
           (Inr None, s\<lparr>sdk_calls := sdk_calls s @ [''boto3.client'', ''list_buckets'']\<rparr>)"
  using assms by (simp add: aws_sdk_call_with_no_instrumentation_def sdk_call_def)

theorem no_instrumentation_returns_none_witness:
  "fst (aws_sdk_call_with_no_instrumentation env_ok empty_world) = Inr None
   \<and> sdk_calls (snd (aws_sdk_call_with_no_instrumentation env_ok empty_world)) =
       [''boto3.client'', ''list_buckets'']"
proof -
  have "boto3_client env_ok = Inr ()"
    "list_buckets env_ok = Inr [''Buckets'' \<mapsto>
        [[''Name'' \<mapsto> ''a''], [''Name'' \<mapsto> ''b''], [''Name'' \<mapsto> ''c'']]]"
    by (simp_all add: env_ok_def)
  from no_instrumentation_returns_none [OF this, of empty_world] show ?thesis
    by (simp add: empty_world_def)
qed

text \<open>
  C10. In every invocation in which the wrapped operation fails, the root span has neither
  the attribute \<^verbatim>\<open>operation.success\<close> nor the attribute
  \<^verbatim>\<open>operation.total_duration_ms\<close>, it has no event named
  \<^verbatim>\<open>Operation completed successfully\<close>, no call of the counter's \<^verbatim>\<open>add\<close> made during
  the invocation carries the label \<^verbatim>\<open>operation = list_buckets\<close> alone, and the count of
  that label set is what it was.
\<close>

theorem failure_has_no_success_effects:
  assumes "list_buckets_operation ev = Inl e"
  shows "attributes (spans (snd (aws_sdk_call_manual_instrumentation ev s)) ! length (spans s))
           ''operation.success'' = None
       \<and> attributes (spans (snd (aws_sdk_call_manual_instrumentation ev s)) ! length (spans s))
           ''operation.total_duration_ms'' = None
       \<and> ''Operation completed successfully'' \<notin>
           fst ` set (events (spans (snd (aws_sdk_call_manual_instrumentation ev s)) ! length (spans s)))
       \<and> [(''operation'', ''list_buckets'')] \<notin>
           snd ` set (drop (length (counter_adds s))
                        (counter_adds (snd (aws_sdk_call_manual_instrumentation ev s))))
       \<and> counter_value [(''operation'', ''list_buckets'')] (snd (aws_sdk_call_manual_instrumentation ev s)) =
           counter_value [(''operation'', ''list_buckets'')] s"
proof -
  from failed_run [OF assms, of s] obtain root cs w r where
    run: "aws_sdk_call_manual_instrumentation ev s = (r, w)"
    and sp: "spans w = spans s @ root # cs"
    and adds: "counter_adds w = counter_adds s @ [(1, error_labels)]"
    and a1: "attributes root ''operation.success'' = None"
    and a2: "attributes root ''operation.total_duration_ms'' = None"
    and ev: "map fst (events root) = [''Operation initialized'', ''exception'']"
    by auto
  have "fst ` set (events root) = set (map fst (events root))" by simp
  then have "''Operation completed successfully'' \<notin> fst ` set (events root)"
    unfolding ev by simp
  then show ?thesis
    by (simp add: run sp adds a1 a2 counter_value_def error_labels_def)
qed

theorem failure_has_no_success_effects_witness:
  "attributes (spans (snd (aws_sdk_call_manual_instrumentation env_denied empty_world)) ! 0)
     ''operation.success'' = None
   \<and> counter_value [(''operation'', ''list_buckets'')]
       (snd (aws_sdk_call_manual_instrumentation env_denied empty_world)) = 0"
  using failure_has_no_success_effects [OF env_denied_outcome, of empty_world]
  by (simp add: empty_world_def counter_value_def)

end
